theory Spec2Isabelle
  imports Main
begin

section \<open>Service Doctor: data model\<close>

text \<open>
  The repository holds two parallel implementations of one monitor:
  \<^verbatim>\<open>service-doctor/solid-version/main.py\<close> (classes, pluggable repositories and
  notification senders) and \<^verbatim>\<open>service-doctor/simple-version/main.py\<close> (module-level
  functions over a global \<^verbatim>\<open>CONFIG\<close> and a global \<^verbatim>\<open>service_failures\<close>).
  Both are embedded here; the names of the simple version carry the prefix \<open>simple_\<close>.

  A \<^verbatim>\<open>datetime\<close> is an integer number of microseconds (the resolution of Python's
  \<^verbatim>\<open>datetime\<close>), and so is a \<^verbatim>\<open>timedelta\<close>. Every call of
  \<^verbatim>\<open>datetime.now()\<close> is an input of the model: the functions take the value the
  clock returned at that call.
\<close>

type_synonym datetime = int
type_synonym timedelta = int

datatype EventType = CHECK | RESTART | FAILURE

datatype NotificationType = EMAIL | SLACK | TEAMS

record ServiceEvent =
  service_name :: string
  event_type :: EventType
  success :: bool
  timestamp :: datetime
  message :: "string option"

text \<open>
  The constructor call \<^verbatim>\<open>ServiceEvent(service_name=..., event_type=..., success=...,
  timestamp=...)\<close>; the message keeps its default \<^verbatim>\<open>None\<close>.
\<close>

definition new_ServiceEvent :: "string \<Rightarrow> EventType \<Rightarrow> bool \<Rightarrow> datetime \<Rightarrow> ServiceEvent" where
  "new_ServiceEvent svc ty ok t =
     \<lparr>service_name = svc, event_type = ty, success = ok, timestamp = t, message = None\<rparr>"

text \<open>\<^verbatim>\<open>EventType.value\<close>: the string tag of an event type.\<close>

fun EventType_value :: "EventType \<Rightarrow> string" where
  "EventType_value CHECK = ''check''"
| "EventType_value RESTART = ''restart''"
| "EventType_value FAILURE = ''failure''"

text \<open>
  Exceptions are values. Only subclasses of \<^verbatim>\<open>Exception\<close> are modelled: they are what
  the handlers \<^verbatim>\<open>except Exception as e\<close> of the source catch.
\<close>

datatype py_exception = Exception string

text \<open>Configuration dictionaries (\<^verbatim>\<open>Dict[str, Any]\<close>) hold Python values.\<close>

datatype pyval = PNone | PStr string | PInt int | PBool bool

fun truthy :: "pyval \<Rightarrow> bool" where
  "truthy PNone = False"
| "truthy (PStr s) = (s \<noteq> [])"
| "truthy (PInt i) = (i \<noteq> 0)"
| "truthy (PBool b) = b"

type_synonym pydict = "string \<Rightarrow> pyval option"

text \<open>\<^verbatim>\<open>d.get(k)\<close> gives \<^verbatim>\<open>None\<close> for a missing key; \<^verbatim>\<open>d[k]\<close> raises KeyError.\<close>

definition dict_get :: "pydict \<Rightarrow> string \<Rightarrow> pyval" where
  "dict_get d k = (case d k of None \<Rightarrow> PNone | Some v \<Rightarrow> v)"

definition dict_item :: "pydict \<Rightarrow> string \<Rightarrow> py_exception + pyval" where
  "dict_item d k = (case d k of None \<Rightarrow> Inl (Exception ''KeyError'') | Some v \<Rightarrow> Inr v)"

subsection \<open>Observable effects\<close>

text \<open>
  What a function does to the outside world is returned as a list of effects, in the
  order the source performs them: log records, SMTP sessions and HTTP posts. The text
  of a log record is the constant part of the source's message.
\<close>

datatype log_level = DEBUG | INFO | WARNING | ERROR

datatype payload =
  SlackMessage string "datetime list"
| TeamsCard string "datetime list"

datatype effect =
  Log log_level string
| SmtpSend pyval pyval pyval pyval string "datetime list"
| HttpPost pyval payload


text \<open>
  The network is an input: \<open>smtp\<close> is the exception the SMTP session raises, if any,
  and \<open>http_post url\<close> is the status code of the response or the exception raised by
  \<^verbatim>\<open>requests.post\<close>.
\<close>

record network =
  smtp :: "py_exception option"
  http_post :: "pyval \<Rightarrow> py_exception + int"

section \<open>Solid version: notification senders\<close>

record NotificationConfig =
  notification_type :: NotificationType
  enabled :: bool
  nconfig :: pydict

text \<open>\<^verbatim>\<open>EmailNotificationSender.send_notification\<close>\<close>

definition email_send_notification ::
  "network \<Rightarrow> string \<Rightarrow> datetime list \<Rightarrow> pydict \<Rightarrow> bool \<times> effect list" where
  "email_send_notification nw svc failures cfg =
     (if \<not> truthy (dict_get cfg ''password'') then
        (False, [Log DEBUG ''Email password missing.''])
      else
        (case dict_item cfg ''sender_email'' of
           Inl e \<Rightarrow> (False, [Log ERROR ''Failed to send email alert for service''])
         | Inr sender \<Rightarrow>
        (case dict_item cfg ''receiver_email'' of
           Inl e \<Rightarrow> (False, [Log ERROR ''Failed to send email alert for service''])
         | Inr receiver \<Rightarrow>
        (case dict_item cfg ''smtp_server'' of
           Inl e \<Rightarrow> (False, [Log ERROR ''Failed to send email alert for service''])
         | Inr server \<Rightarrow>
        (case dict_item cfg ''smtp_port'' of
           Inl e \<Rightarrow> (False, [Log ERROR ''Failed to send email alert for service''])
         | Inr port \<Rightarrow>
        (case smtp nw of
           Some e \<Rightarrow>
             (False, [SmtpSend server port sender receiver svc failures,
                      Log ERROR ''Failed to send email alert for service''])
         | None \<Rightarrow>
             (True, [SmtpSend server port sender receiver svc failures,
                     Log INFO ''Email alert sent for service''])))))))"

text \<open>\<^verbatim>\<open>SlackNotificationSender.send_notification\<close>\<close>

definition slack_send_notification ::
  "network \<Rightarrow> string \<Rightarrow> datetime list \<Rightarrow> pydict \<Rightarrow> bool \<times> effect list" where
  "slack_send_notification nw svc failures cfg =
     (if \<not> truthy (dict_get cfg ''webhook_url'') then
        (False, [Log DEBUG ''Slack webhook URL missing.''])
      else
        (case dict_item cfg ''webhook_url'' of
           Inl e \<Rightarrow> (False, [Log ERROR ''Failed to send Slack alert for service''])
         | Inr url \<Rightarrow>
        (case http_post nw url of
           Inl e \<Rightarrow>
             (False, [HttpPost url (SlackMessage svc failures),
                      Log ERROR ''Failed to send Slack alert for service''])
         | Inr status_code \<Rightarrow>
             if status_code = 200 then
               (True, [HttpPost url (SlackMessage svc failures),
                       Log INFO ''Slack alert sent for service''])
             else
               (False, [HttpPost url (SlackMessage svc failures),
                        Log ERROR ''Failed to send Slack alert'']))))"

text \<open>\<^verbatim>\<open>TeamsNotificationSender.send_notification\<close>\<close>

definition teams_send_notification ::
  "network \<Rightarrow> string \<Rightarrow> datetime list \<Rightarrow> pydict \<Rightarrow> bool \<times> effect list" where
  "teams_send_notification nw svc failures cfg =
     (if \<not> truthy (dict_get cfg ''webhook_url'') then
        (False, [Log DEBUG ''Teams webhook URL missing.''])
      else
        (case dict_item cfg ''webhook_url'' of
           Inl e \<Rightarrow> (False, [Log ERROR ''Failed to send Teams alert for service''])
         | Inr url \<Rightarrow>
        (case http_post nw url of
           Inl e \<Rightarrow>
             (False, [HttpPost url (TeamsCard svc failures),
                      Log ERROR ''Failed to send Teams alert for service''])
         | Inr status_code \<Rightarrow>
             if status_code = 200 then
               (True, [HttpPost url (TeamsCard svc failures),
                       Log INFO ''Teams alert sent for service''])
             else
               (False, [HttpPost url (TeamsCard svc failures),
                        Log ERROR ''Failed to send Teams alert'']))))"

text \<open>
  \<^verbatim>\<open>NotificationSenderFactory.create_sender\<close> followed by the sender's
  \<^verbatim>\<open>send_notification\<close>. The registry \<^verbatim>\<open>_senders\<close> has an entry for each of
  the three members of \<^verbatim>\<open>NotificationType\<close>, so the factory's \<^verbatim>\<open>ValueError\<close> has no
  input.
\<close>

fun send_notification ::
  "NotificationType \<Rightarrow> network \<Rightarrow> string \<Rightarrow> datetime list \<Rightarrow> pydict \<Rightarrow> bool \<times> effect list" where
  "send_notification EMAIL = email_send_notification"
| "send_notification SLACK = slack_send_notification"
| "send_notification TEAMS = teams_send_notification"

section \<open>Solid version: database repositories\<close>

text \<open>
  The three repositories talk to external servers through client libraries. The model
  keeps, for each server, what the repository stores there, and one flag telling whether
  the client's calls succeed (\<open>True\<close>) or raise (\<open>False\<close>: server unreachable,
  connection parameters missing). Each method of the source wraps its client calls in
  \<^verbatim>\<open>try ... except Exception\<close>; the \<open>else\<close> branches below are those handlers.
\<close>

text \<open>The InfluxDB point built by \<^verbatim>\<open>InfluxDBRepository.save_event\<close>.\<close>

record Point =
  point_service :: string
  point_event_type :: string
  point_success :: bool
  point_value :: int
  point_time :: datetime

definition event_point :: "ServiceEvent \<Rightarrow> Point" where
  "event_point e =
     \<lparr>point_service = service_name e,
      point_event_type = EventType_value (event_type e),
      point_success = success e,
      point_value = (if event_type e \<noteq> CHECK then 1 else (if success e then 1 else 0)),
      point_time = timestamp e\<rparr>"

text \<open>
  The document \<^verbatim>\<open>event_data\<close> / \<^verbatim>\<open>event_doc\<close> that the Redis and MongoDB
  repositories store (\<^verbatim>\<open>event.message or ""\<close> for the message).
\<close>

record EventDoc =
  doc_service_name :: string
  doc_event_type :: string
  doc_success :: bool
  doc_timestamp :: datetime
  doc_message :: string

definition event_doc :: "ServiceEvent \<Rightarrow> EventDoc" where
  "event_doc e =
     \<lparr>doc_service_name = service_name e,
      doc_event_type = EventType_value (event_type e),
      doc_success = success e,
      doc_timestamp = timestamp e,
      doc_message = (case message e of None \<Rightarrow> [] | Some m \<Rightarrow> m)\<rparr>"

subsection \<open>InfluxDBRepository\<close>

record influx_store =
  influx_available :: bool
  influx_bucket :: "Point list"

definition influx_save_event ::
  "influx_store \<Rightarrow> ServiceEvent \<Rightarrow> bool \<times> influx_store \<times> effect list" where
  "influx_save_event db e =
     (if influx_available db then
        (True, db\<lparr>influx_bucket := influx_bucket db @ [event_point e]\<rparr>,
         [Log DEBUG ''Saved event to InfluxDB''])
      else (False, db, [Log ERROR ''Failed to save event to InfluxDB'']))"

text \<open>
  \<^verbatim>\<open>get_failures\<close> returns \<^verbatim>\<open>[]\<close> and \<^verbatim>\<open>cleanup_old_records\<close> is
  \<^verbatim>\<open>pass\<close>: neither touches the client.
\<close>

definition influx_get_failures ::
  "influx_store \<Rightarrow> string \<Rightarrow> datetime \<Rightarrow> datetime list \<times> effect list" where
  "influx_get_failures db svc since = ([], [])"

definition influx_cleanup_old_records ::
  "influx_store \<Rightarrow> datetime \<Rightarrow> influx_store \<times> effect list" where
  "influx_cleanup_old_records db cutoff_time = (db, [])"

subsection \<open>RedisRepository\<close>

text \<open>
  Redis holds two sorted sets per service. Under \<^verbatim>\<open>service_failures:<name>\<close> the
  members are ISO timestamps and the score of a member is that same timestamp, so the
  set is a strictly increasing list of timestamps. Under \<^verbatim>\<open>service_events:<name>\<close>
  the members are the JSON documents; the program never reads this set, and the model
  keeps its members without an order. The score \<^verbatim>\<open>timestamp.timestamp()\<close> is
  modelled by the timestamp itself. A key that was never written reads as the empty set.
\<close>

record redis_store =
  redis_available :: bool
  redis_events :: "string \<Rightarrow> EventDoc list"
  redis_failures :: "string \<Rightarrow> datetime list"

text \<open>\<^verbatim>\<open>zadd\<close> of a member whose score is the member itself.\<close>

definition zadd :: "datetime \<Rightarrow> datetime list \<Rightarrow> datetime list" where
  "zadd t zs = (if t \<in> set zs then zs else insort t zs)"

definition redis_save_event ::
  "redis_store \<Rightarrow> ServiceEvent \<Rightarrow> bool \<times> redis_store \<times> effect list" where
  "redis_save_event db e =
     (if redis_available db then
        (True,
         db\<lparr>redis_events := (redis_events db)
               (service_name e := List.insert (event_doc e) (redis_events db (service_name e))),
            redis_failures :=
               (if event_type e = FAILURE
                then (redis_failures db)
                       (service_name e := zadd (timestamp e) (redis_failures db (service_name e)))
                else redis_failures db)\<rparr>,
         [Log DEBUG ''Saved event to Redis''])
      else (False, db, [Log ERROR ''Failed to save event to Redis'']))"

text \<open>\<^verbatim>\<open>zrangebyscore(key, since_timestamp, "+inf")\<close>: both ends inclusive.\<close>

definition redis_get_failures ::
  "redis_store \<Rightarrow> string \<Rightarrow> datetime \<Rightarrow> datetime list \<times> effect list" where
  "redis_get_failures db svc since =
     (if redis_available db then ([t \<leftarrow> redis_failures db svc. since \<le> t], [])
      else ([], [Log ERROR ''Failed to get failures from Redis'']))"

text \<open>
  \<^verbatim>\<open>zremrangebyscore(key, "-inf", cutoff_timestamp)\<close> on every key of both families:
  it removes the members whose score is at most the cutoff.
\<close>

definition redis_cleanup_old_records ::
  "redis_store \<Rightarrow> datetime \<Rightarrow> redis_store \<times> effect list" where
  "redis_cleanup_old_records db cutoff_time =
     (if redis_available db then
        (db\<lparr>redis_events := (\<lambda>k. [d \<leftarrow> redis_events db k. \<not> doc_timestamp d \<le> cutoff_time]),
            redis_failures := (\<lambda>k. [t \<leftarrow> redis_failures db k. \<not> t \<le> cutoff_time])\<rparr>,
         [Log DEBUG ''Cleaned up old records before cutoff''])
      else (db, [Log ERROR ''Failed to cleanup old records in Redis'']))"

subsection \<open>MongoDBRepository\<close>

text \<open>
  The collection \<^verbatim>\<open>service_events\<close>, in insertion order. A document keeps the
  timestamp it was given: the rounding of the stored value to BSON's milliseconds is
  the client library's and is not modelled.
\<close>

record mongo_store =
  mongo_available :: bool
  mongo_collection :: "EventDoc list"

definition mongo_save_event ::
  "mongo_store \<Rightarrow> ServiceEvent \<Rightarrow> bool \<times> mongo_store \<times> effect list" where
  "mongo_save_event db e =
     (if mongo_available db then
        (True, db\<lparr>mongo_collection := mongo_collection db @ [event_doc e]\<rparr>,
         [Log DEBUG ''Saved event to MongoDB''])
      else (False, db, [Log ERROR ''Failed to save event to MongoDB'']))"

definition mongo_get_failures ::
  "mongo_store \<Rightarrow> string \<Rightarrow> datetime \<Rightarrow> datetime list \<times> effect list" where
  "mongo_get_failures db svc since =
     (if mongo_available db then
        (map doc_timestamp
           [d \<leftarrow> mongo_collection db.
              doc_service_name d = svc \<and> doc_event_type d = EventType_value FAILURE
              \<and> since \<le> doc_timestamp d], [])
      else ([], [Log ERROR ''Failed to get failures from MongoDB'']))"

text \<open>\<^verbatim>\<open>delete_many({"timestamp": {"$lt": cutoff_time}})\<close>\<close>

definition mongo_cleanup_old_records ::
  "mongo_store \<Rightarrow> datetime \<Rightarrow> mongo_store \<times> effect list" where
  "mongo_cleanup_old_records db cutoff_time =
     (if mongo_available db then
        (db\<lparr>mongo_collection := [d \<leftarrow> mongo_collection db. \<not> doc_timestamp d < cutoff_time]\<rparr>,
         [Log DEBUG ''Cleaned up old records before cutoff''])
      else (db, [Log ERROR ''Failed to cleanup old records in MongoDB'']))"

subsection \<open>The interface DatabaseRepository\<close>

text \<open>
  \<^verbatim>\<open>ServiceDoctor\<close> calls its repositories through the abstract class
  \<^verbatim>\<open>DatabaseRepository\<close> and guards every call with its own
  \<^verbatim>\<open>try ... except Exception\<close>. The interface is a record of the three methods over
  the repository's state \<open>'db\<close>; a method returns normally (\<open>Inr\<close>) or raises
  (\<open>Inl\<close>). A query leaves the repository as it is.
\<close>

record 'db DatabaseRepository =
  db_save_event :: "'db \<Rightarrow> ServiceEvent \<Rightarrow> (py_exception + bool) \<times> 'db \<times> effect list"
  db_get_failures :: "'db \<Rightarrow> string \<Rightarrow> datetime \<Rightarrow> (py_exception + datetime list) \<times> effect list"
  db_cleanup_old_records :: "'db \<Rightarrow> datetime \<Rightarrow> py_exception option \<times> 'db \<times> effect list"

text \<open>
  The repositories that \<^verbatim>\<open>DatabaseRepositoryFactory.create_repository\<close> builds. Their
  methods catch every exception themselves, so they always return normally.
\<close>

datatype repository =
  InfluxDBRepository influx_store
| RedisRepository redis_store
| MongoDBRepository mongo_store

fun repository_save_event ::
  "repository \<Rightarrow> ServiceEvent \<Rightarrow> (py_exception + bool) \<times> repository \<times> effect list" where
  "repository_save_event (InfluxDBRepository db) e =
     (case influx_save_event db e of (ok, db', tr) \<Rightarrow> (Inr ok, InfluxDBRepository db', tr))"
| "repository_save_event (RedisRepository db) e =
     (case redis_save_event db e of (ok, db', tr) \<Rightarrow> (Inr ok, RedisRepository db', tr))"
| "repository_save_event (MongoDBRepository db) e =
     (case mongo_save_event db e of (ok, db', tr) \<Rightarrow> (Inr ok, MongoDBRepository db', tr))"

fun repository_get_failures ::
  "repository \<Rightarrow> string \<Rightarrow> datetime \<Rightarrow> (py_exception + datetime list) \<times> effect list" where
  "repository_get_failures (InfluxDBRepository db) svc since =
     (case influx_get_failures db svc since of (fs, tr) \<Rightarrow> (Inr fs, tr))"
| "repository_get_failures (RedisRepository db) svc since =
     (case redis_get_failures db svc since of (fs, tr) \<Rightarrow> (Inr fs, tr))"
| "repository_get_failures (MongoDBRepository db) svc since =
     (case mongo_get_failures db svc since of (fs, tr) \<Rightarrow> (Inr fs, tr))"

fun repository_cleanup_old_records ::
  "repository \<Rightarrow> datetime \<Rightarrow> py_exception option \<times> repository \<times> effect list" where
  "repository_cleanup_old_records (InfluxDBRepository db) cutoff_time =
     (case influx_cleanup_old_records db cutoff_time of
        (db', tr) \<Rightarrow> (None, InfluxDBRepository db', tr))"
| "repository_cleanup_old_records (RedisRepository db) cutoff_time =
     (case redis_cleanup_old_records db cutoff_time of
        (db', tr) \<Rightarrow> (None, RedisRepository db', tr))"
| "repository_cleanup_old_records (MongoDBRepository db) cutoff_time =
     (case mongo_cleanup_old_records db cutoff_time of
        (db', tr) \<Rightarrow> (None, MongoDBRepository db', tr))"

definition repository_methods :: "repository DatabaseRepository" where
  "repository_methods =
     \<lparr>db_save_event = repository_save_event,
      db_get_failures = repository_get_failures,
      db_cleanup_old_records = repository_cleanup_old_records\<rparr>"

section \<open>Solid version: ServiceDoctor\<close>

text \<open>
  The configuration dictionary read by \<^verbatim>\<open>ServiceDoctor\<close>. A field is \<open>None\<close> when
  the key is absent, and the accessors below give the defaults of the
  \<^verbatim>\<open>self.config.get(key, default)\<close> calls. The two durations are stored as the
  \<^verbatim>\<open>timedelta(hours=...)\<close> they denote.
\<close>

record sd_config =
  services :: "string list option"
  scan_interval_minutes :: "int option"
  alert_window_hours :: "timedelta option"
  alert_threshold :: "int option"
  retention_hours :: "timedelta option"

definition hours :: "int \<Rightarrow> timedelta" where
  "hours h = h * 3600000000"

definition get_services :: "sd_config \<Rightarrow> string list" where
  "get_services c = (case services c of None \<Rightarrow> [] | Some xs \<Rightarrow> xs)"

definition get_scan_interval_minutes :: "sd_config \<Rightarrow> int" where
  "get_scan_interval_minutes c = (case scan_interval_minutes c of None \<Rightarrow> 5 | Some n \<Rightarrow> n)"

definition get_alert_window :: "sd_config \<Rightarrow> timedelta" where
  "get_alert_window c = (case alert_window_hours c of None \<Rightarrow> hours 1 | Some d \<Rightarrow> d)"

definition get_alert_threshold :: "sd_config \<Rightarrow> int" where
  "get_alert_threshold c = (case alert_threshold c of None \<Rightarrow> 3 | Some n \<Rightarrow> n)"

definition get_retention :: "sd_config \<Rightarrow> timedelta" where
  "get_retention c = (case retention_hours c of None \<Rightarrow> hours 24 | Some d \<Rightarrow> d)"

text \<open>
  The fields of a \<^verbatim>\<open>ServiceDoctor\<close> object. \<open>service_failures\<close> is the
  \<^verbatim>\<open>defaultdict(list)\<close>: a service without an entry has the empty list.
\<close>

record 'db ServiceDoctor =
  config :: sd_config
  databases :: "'db list"
  notification_configs :: "NotificationConfig list"
  service_failures :: "string \<Rightarrow> datetime list"

text \<open>
  \<^verbatim>\<open>ServiceDoctor.save_event\<close>: the loop over \<^verbatim>\<open>self.databases\<close>. An exception
  raised by a repository is caught, logged, and the loop goes on.
\<close>

fun save_event_loop ::
  "'db DatabaseRepository \<Rightarrow> ServiceEvent \<Rightarrow> 'db list \<Rightarrow> 'db list \<times> effect list" where
  "save_event_loop m e [] = ([], [])"
| "save_event_loop m e (db # dbs) =
     (case db_save_event m db e of
        (Inr ok, db', tr) \<Rightarrow>
          (case save_event_loop m e dbs of (dbs', tr') \<Rightarrow> (db' # dbs', tr @ tr'))
      | (Inl ex, db', tr) \<Rightarrow>
          (case save_event_loop m e dbs of
             (dbs', tr') \<Rightarrow>
               (db' # dbs', tr @ Log ERROR ''Failed to save event to database'' # tr')))"

definition save_event ::
  "'db DatabaseRepository \<Rightarrow> ServiceEvent \<Rightarrow> 'db ServiceDoctor
     \<Rightarrow> 'db ServiceDoctor \<times> effect list" where
  "save_event m e sd =
     (case save_event_loop m e (databases sd) of
        (dbs', tr) \<Rightarrow> (sd\<lparr>databases := dbs'\<rparr>, tr))"

text \<open>
  \<^verbatim>\<open>ServiceDoctor.get_recent_failures\<close>. The loop returns the first non-empty
  answer (\<^verbatim>\<open>if failures: return failures\<close>); an exception is logged and the next
  repository is tried. \<open>now\<close> is the clock read by this method.
\<close>

fun query_databases ::
  "'db DatabaseRepository \<Rightarrow> string \<Rightarrow> datetime \<Rightarrow> 'db list
     \<Rightarrow> datetime list option \<times> effect list" where
  "query_databases m svc cutoff_time [] = (None, [])"
| "query_databases m svc cutoff_time (db # dbs) =
     (case db_get_failures m db svc cutoff_time of
        (Inr failures, tr) \<Rightarrow>
          if failures \<noteq> [] then (Some failures, tr)
          else (case query_databases m svc cutoff_time dbs of (r, tr') \<Rightarrow> (r, tr @ tr'))
      | (Inl ex, tr) \<Rightarrow>
          (case query_databases m svc cutoff_time dbs of
             (r, tr') \<Rightarrow> (r, tr @ Log ERROR ''Failed to get failures from database'' # tr')))"

definition get_recent_failures ::
  "'db DatabaseRepository \<Rightarrow> datetime \<Rightarrow> string \<Rightarrow> 'db ServiceDoctor
     \<Rightarrow> datetime list \<times> 'db ServiceDoctor \<times> effect list" where
  "get_recent_failures m now svc sd =
     (let cutoff_time = now - get_alert_window (config sd) in
      case query_databases m svc cutoff_time (databases sd) of
        (Some failures, tr) \<Rightarrow> (failures, sd, tr)
      | (None, tr) \<Rightarrow>
          (let kept = [t \<leftarrow> service_failures sd svc. t \<ge> cutoff_time]
           in (kept, sd\<lparr>service_failures := (service_failures sd)(svc := kept)\<rparr>, tr)))"

text \<open>
  \<^verbatim>\<open>ServiceDoctor.send_alerts\<close>: one attempt per entry of
  \<^verbatim>\<open>self.notification_configs\<close>.
\<close>

fun send_alerts_loop ::
  "network \<Rightarrow> string \<Rightarrow> datetime list \<Rightarrow> NotificationConfig list \<Rightarrow> effect list" where
  "send_alerts_loop nw svc failures [] = []"
| "send_alerts_loop nw svc failures (nc # ncs) =
     snd (send_notification (notification_type nc) nw svc failures (nconfig nc))
       @ send_alerts_loop nw svc failures ncs"

definition send_alerts ::
  "network \<Rightarrow> string \<Rightarrow> datetime list \<Rightarrow> 'db ServiceDoctor \<Rightarrow> effect list" where
  "send_alerts nw svc failures sd =
     Log WARNING ''Alert triggered for service''
       # send_alerts_loop nw svc failures (notification_configs sd)"

text \<open>
  \<^verbatim>\<open>ServiceDoctor.record_failure\<close>. \<open>now\<close> is the clock read by this method,
  \<open>now'\<close> the clock read afterwards by \<^verbatim>\<open>get_recent_failures\<close>.
\<close>

definition record_failure ::
  "'db DatabaseRepository \<Rightarrow> network \<Rightarrow> datetime \<Rightarrow> datetime \<Rightarrow> string \<Rightarrow> 'db ServiceDoctor
     \<Rightarrow> 'db ServiceDoctor \<times> effect list" where
  "record_failure m nw now now' svc sd =
     (let event = new_ServiceEvent svc FAILURE False now
      in case save_event m event sd of
        (sd1, tr1) \<Rightarrow>
          (let sd2 = sd1\<lparr>service_failures :=
                        (service_failures sd1)(svc := service_failures sd1 svc @ [now])\<rparr>
           in case get_recent_failures m now' svc sd2 of
             (recent_failures, sd3, tr2) \<Rightarrow>
               if int (length recent_failures) \<ge> get_alert_threshold (config sd3)
               then (sd3, tr1 @ tr2 @ send_alerts nw svc recent_failures sd3)
               else (sd3, tr1 @ tr2)))"

text \<open>
  What one iteration of the scan sees of the outside world: the answers of
  \<^verbatim>\<open>is_service_running\<close> and \<^verbatim>\<open>restart_service\<close>, the clock at the three places
  where an iteration can read it, and the network.
\<close>

record probe =
  is_service_running :: bool
  restart_service :: bool
  now_event :: datetime
  now_failure :: datetime
  now_query :: datetime
  net :: network

text \<open>The body of the loop of \<^verbatim>\<open>ServiceDoctor.scan_services\<close>.\<close>

definition scan_service ::
  "'db DatabaseRepository \<Rightarrow> probe \<Rightarrow> string \<Rightarrow> 'db ServiceDoctor
     \<Rightarrow> 'db ServiceDoctor \<times> effect list" where
  "scan_service m w svc sd =
     (if is_service_running w then
        (case save_event m (new_ServiceEvent svc CHECK True (now_event w)) sd of
           (sd1, tr1) \<Rightarrow> (sd1, Log DEBUG ''Service is running'' # tr1))
      else
        (let restart_success = restart_service w
         in case save_event m (new_ServiceEvent svc RESTART restart_success (now_event w)) sd of
           (sd1, tr1) \<Rightarrow>
             if restart_success then
               (sd1, Log WARNING ''Service is down, attempting to restart'' # tr1
                       @ [Log INFO ''Service restarted successfully''])
             else
               (case record_failure m (net w) (now_failure w) (now_query w) svc sd1 of
                  (sd2, tr2) \<Rightarrow>
                    (sd2, Log WARNING ''Service is down, attempting to restart'' # tr1
                            @ Log ERROR ''Failed to restart service'' # tr2))))"

text \<open>
  \<^verbatim>\<open>ServiceDoctor.scan_services\<close>: the \<open>i\<close>-th iteration of the loop sees the world
  \<open>w i\<close>.
\<close>

fun scan_loop ::
  "'db DatabaseRepository \<Rightarrow> (nat \<Rightarrow> probe) \<Rightarrow> nat \<Rightarrow> string list \<Rightarrow> 'db ServiceDoctor
     \<Rightarrow> 'db ServiceDoctor \<times> effect list" where
  "scan_loop m w i [] sd = (sd, [])"
| "scan_loop m w i (svc # svcs) sd =
     (case scan_service m (w i) svc sd of
        (sd1, tr1) \<Rightarrow>
          (case scan_loop m w (Suc i) svcs sd1 of (sd2, tr2) \<Rightarrow> (sd2, tr1 @ tr2)))"

definition scan_services ::
  "'db DatabaseRepository \<Rightarrow> (nat \<Rightarrow> probe) \<Rightarrow> 'db ServiceDoctor
     \<Rightarrow> 'db ServiceDoctor \<times> effect list" where
  "scan_services m w sd =
     (case scan_loop m w 0 (get_services (config sd)) sd of
        (sd1, tr) \<Rightarrow>
          (sd1, Log INFO ''Starting service scan...'' # tr @ [Log INFO ''Service scan completed'']))"

text \<open>\<^verbatim>\<open>ServiceDoctor.cleanup_old_data\<close>; \<open>now\<close> is the clock it reads.\<close>

fun cleanup_loop ::
  "'db DatabaseRepository \<Rightarrow> datetime \<Rightarrow> 'db list \<Rightarrow> 'db list \<times> effect list" where
  "cleanup_loop m cutoff_time [] = ([], [])"
| "cleanup_loop m cutoff_time (db # dbs) =
     (case db_cleanup_old_records m db cutoff_time of
        (None, db', tr) \<Rightarrow>
          (case cleanup_loop m cutoff_time dbs of (dbs', tr') \<Rightarrow> (db' # dbs', tr @ tr'))
      | (Some ex, db', tr) \<Rightarrow>
          (case cleanup_loop m cutoff_time dbs of
             (dbs', tr') \<Rightarrow> (db' # dbs', tr @ Log ERROR ''Failed to cleanup old data'' # tr')))"

definition cleanup_old_data ::
  "'db DatabaseRepository \<Rightarrow> datetime \<Rightarrow> 'db ServiceDoctor \<Rightarrow> 'db ServiceDoctor \<times> effect list" where
  "cleanup_old_data m now sd =
     (let cutoff_time = now - get_retention (config sd)
      in case cleanup_loop m cutoff_time (databases sd) of
        (dbs', tr) \<Rightarrow> (sd\<lparr>databases := dbs'\<rparr>, tr))"

subsection \<open>The main loop\<close>

text \<open>
  The jobs registered with the \<^verbatim>\<open>schedule\<close> module: the scan, every given number
  of minutes, and the cleanup, every hour.
\<close>

datatype job = ScanServicesJob int | CleanupOldDataJob

text \<open>The world while the jobs of one \<^verbatim>\<open>schedule.run_pending()\<close> run.\<close>

record world =
  probes :: "nat \<Rightarrow> probe"
  now_cleanup :: datetime

text \<open>
  One pass of \<^verbatim>\<open>while True: schedule.run_pending(); time.sleep(1)\<close>: the jobs that
  are due run, or the pass is cut by \<^verbatim>\<open>KeyboardInterrupt\<close>, or by another
  exception. The loop has no exit of its own; the list of passes given to the model is
  finite, and \<open>StillRunning\<close> is the outcome when the list ends before the loop does.
\<close>

datatype tick = RunPending "job list" world | KeyboardInterrupt | UnexpectedError py_exception

datatype run_result = Returned "int option" | StillRunning

fun run_jobs ::
  "'db DatabaseRepository \<Rightarrow> world \<Rightarrow> job list \<Rightarrow> 'db ServiceDoctor
     \<Rightarrow> 'db ServiceDoctor \<times> effect list" where
  "run_jobs m w [] sd = (sd, [])"
| "run_jobs m w (ScanServicesJob n # js) sd =
     (case scan_services m (probes w) sd of
        (sd1, tr1) \<Rightarrow> (case run_jobs m w js sd1 of (sd2, tr2) \<Rightarrow> (sd2, tr1 @ tr2)))"
| "run_jobs m w (CleanupOldDataJob # js) sd =
     (case cleanup_old_data m (now_cleanup w) sd of
        (sd1, tr1) \<Rightarrow> (case run_jobs m w js sd1 of (sd2, tr2) \<Rightarrow> (sd2, tr1 @ tr2)))"

fun monitoring_loop ::
  "'db DatabaseRepository \<Rightarrow> job list \<Rightarrow> tick list \<Rightarrow> 'db ServiceDoctor
     \<Rightarrow> run_result \<times> 'db ServiceDoctor \<times> effect list" where
  "monitoring_loop m jobs [] sd = (StillRunning, sd, [])"
| "monitoring_loop m jobs (RunPending due w # ticks) sd =
     (case run_jobs m w [j \<leftarrow> due. j \<in> set jobs] sd of
        (sd1, tr1) \<Rightarrow>
          (case monitoring_loop m jobs ticks sd1 of (r, sd2, tr2) \<Rightarrow> (r, sd2, tr1 @ tr2)))"
| "monitoring_loop m jobs (KeyboardInterrupt # ticks) sd =
     (Returned (Some 0), sd, [Log INFO ''Service monitoring stopped by user''])"
| "monitoring_loop m jobs (UnexpectedError ex # ticks) sd =
     (Returned (Some 1), sd, [Log ERROR ''Unexpected error''])"

text \<open>
  \<^verbatim>\<open>ServiceDoctor.run\<close>. \<open>w0\<close> is the world of the initial scan, \<open>jobs\<close> the
  jobs registered with \<^verbatim>\<open>schedule\<close> before the call; the result holds the value
  returned, the object, the registered jobs and the effects.
\<close>

definition run ::
  "'db DatabaseRepository \<Rightarrow> (nat \<Rightarrow> probe) \<Rightarrow> tick list \<Rightarrow> job list \<Rightarrow> 'db ServiceDoctor
     \<Rightarrow> run_result \<times> 'db ServiceDoctor \<times> job list \<times> effect list" where
  "run m w0 ticks jobs sd =
     (let svcs = get_services (config sd)
      in if svcs = [] then
           (Returned None, sd, jobs,
            [Log INFO ''Linux Service Doctor starting...'',
             Log WARNING ''No services configured for monitoring.''])
         else
           (case scan_services m w0 sd of
              (sd1, tr1) \<Rightarrow>
                (let scan_interval = get_scan_interval_minutes (config sd1);
                     jobs' = jobs @ [ScanServicesJob scan_interval, CleanupOldDataJob]
                 in case monitoring_loop m jobs' ticks sd1 of
                   (r, sd2, tr2) \<Rightarrow>
                     (r, sd2, jobs',
                      [Log INFO ''Linux Service Doctor starting...'',
                       Log INFO ''Monitoring services'', Log INFO ''Scan interval'']
                      @ tr1 @ [Log INFO ''Service monitoring is active''] @ tr2))))"

section \<open>Simple version\<close>

text \<open>
  The global \<^verbatim>\<open>CONFIG\<close> after \<^verbatim>\<open>load_config\<close>, with the keys the functions below
  index. \<open>simple_alert_window_hours\<close> is the
  \<^verbatim>\<open>timedelta(hours=CONFIG["alert_window_hours"])\<close>.
\<close>

record simple_influx_config =
  influx_enabled :: bool
  influx_url :: pyval
  influx_token :: pyval
  influx_org :: pyval
  influx_bucket_name :: pyval

record simple_email_config =
  email_enabled :: bool
  email_password :: pyval
  email_sender :: pyval
  email_receiver :: pyval
  email_smtp_server :: pyval
  email_smtp_port :: pyval

record simple_webhook_config =
  webhook_enabled :: bool
  webhook_url :: pyval

record simple_config =
  simple_services :: "string list"
  simple_alert_window_hours :: timedelta
  simple_alert_threshold :: int
  influxdb :: simple_influx_config
  email :: simple_email_config
  slack :: simple_webhook_config
  teams :: simple_webhook_config

text \<open>
  The globals of the module and the points written to InfluxDB so far.
\<close>

record simple_state =
  CONFIG :: simple_config
  simple_service_failures :: "string \<Rightarrow> datetime list"
  influx_written :: "Point list"

text \<open>What one iteration of the simple scan sees of the outside world.\<close>

record simple_probe =
  check_service :: bool
  restart_service_result :: bool
  now_record :: datetime
  utcnow :: datetime
  influx_write_ok :: bool
  simple_net :: network

text \<open>\<^verbatim>\<open>save_to_influxdb\<close>\<close>

definition save_to_influxdb ::
  "simple_probe \<Rightarrow> string \<Rightarrow> string \<Rightarrow> bool \<Rightarrow> simple_state \<Rightarrow> simple_state \<times> effect list" where
  "save_to_influxdb w svc etype ok st =
     (let influx_config = influxdb (CONFIG st)
      in if \<not> influx_enabled influx_config then (st, [])
         else if \<not> (truthy (influx_url influx_config) \<and> truthy (influx_token influx_config)
                     \<and> truthy (influx_org influx_config)
                     \<and> truthy (influx_bucket_name influx_config))
         then (st, [Log ERROR ''InfluxDB 2.x logging is enabled but connection parameters are missing.''])
         else if influx_write_ok w then
           (st\<lparr>influx_written := influx_written st @
                 [\<lparr>point_service = svc, point_event_type = etype, point_success = ok,
                   point_value = (if etype \<noteq> ''check'' then 1 else (if ok then 1 else 0)),
                   point_time = utcnow w\<rparr>]\<rparr>,
            [Log DEBUG ''Saved event to InfluxDB 2.x bucket''])
         else (st, [Log ERROR ''Failed to save data to InfluxDB 2.x'']))"

text \<open>
  \<^verbatim>\<open>send_email_alert\<close>, \<^verbatim>\<open>send_slack_alert\<close>, \<^verbatim>\<open>send_teams_alert\<close>: they return
  no value, so the model returns their effects only.
\<close>

definition send_email_alert :: "simple_probe \<Rightarrow> string \<Rightarrow> simple_state \<Rightarrow> effect list" where
  "send_email_alert w svc st =
     (let email_config = email (CONFIG st)
      in if \<not> (email_enabled email_config \<and> truthy (email_password email_config)) then
           [Log DEBUG ''Email notifications not enabled or password missing.'']
         else
           (let failures = simple_service_failures st svc
            in case smtp (simple_net w) of
              Some e \<Rightarrow>
                [SmtpSend (email_smtp_server email_config) (email_smtp_port email_config)
                   (email_sender email_config) (email_receiver email_config) svc failures,
                 Log ERROR ''Failed to send email alert for service'']
            | None \<Rightarrow>
                [SmtpSend (email_smtp_server email_config) (email_smtp_port email_config)
                   (email_sender email_config) (email_receiver email_config) svc failures,
                 Log INFO ''Email alert sent for service'']))"

definition send_slack_alert :: "simple_probe \<Rightarrow> string \<Rightarrow> simple_state \<Rightarrow> effect list" where
  "send_slack_alert w svc st =
     (let slack_config = slack (CONFIG st)
      in if \<not> (webhook_enabled slack_config \<and> truthy (webhook_url slack_config)) then
           [Log DEBUG ''Slack notifications not enabled or webhook URL missing.'']
         else
           (let url = webhook_url slack_config; failures = simple_service_failures st svc
            in case http_post (simple_net w) url of
              Inl e \<Rightarrow>
                [HttpPost url (SlackMessage svc failures),
                 Log ERROR ''Failed to send Slack alert for service'']
            | Inr status_code \<Rightarrow>
                if status_code = 200 then
                  [HttpPost url (SlackMessage svc failures), Log INFO ''Slack alert sent for service'']
                else
                  [HttpPost url (SlackMessage svc failures), Log ERROR ''Failed to send Slack alert'']))"

definition send_teams_alert :: "simple_probe \<Rightarrow> string \<Rightarrow> simple_state \<Rightarrow> effect list" where
  "send_teams_alert w svc st =
     (let teams_config = teams (CONFIG st)
      in if \<not> (webhook_enabled teams_config \<and> truthy (webhook_url teams_config)) then
           [Log DEBUG ''Teams notifications not enabled or webhook URL missing.'']
         else
           (let url = webhook_url teams_config; failures = simple_service_failures st svc
            in case http_post (simple_net w) url of
              Inl e \<Rightarrow>
                [HttpPost url (TeamsCard svc failures),
                 Log ERROR ''Failed to send Teams alert for service'']
            | Inr status_code \<Rightarrow>
                if status_code = 200 then
                  [HttpPost url (TeamsCard svc failures), Log INFO ''Teams alert sent for service'']
                else
                  [HttpPost url (TeamsCard svc failures), Log ERROR ''Failed to send Teams alert'']))"

text \<open>\<^verbatim>\<open>send_alert\<close>\<close>

definition send_alert :: "simple_probe \<Rightarrow> string \<Rightarrow> simple_state \<Rightarrow> effect list" where
  "send_alert w svc st =
     Log WARNING ''Alert triggered for service''
       # (if email_enabled (email (CONFIG st)) then send_email_alert w svc st else [])
       @ (if webhook_enabled (slack (CONFIG st)) then send_slack_alert w svc st else [])
       @ (if webhook_enabled (teams (CONFIG st)) then send_teams_alert w svc st else [])"

text \<open>\<^verbatim>\<open>record_failure\<close> of the simple version.\<close>

definition simple_record_failure ::
  "simple_probe \<Rightarrow> string \<Rightarrow> simple_state \<Rightarrow> simple_state \<times> effect list" where
  "simple_record_failure w svc st =
     (let now = now_record w;
          appended = simple_service_failures st svc @ [now];
          cutoff_time = now - simple_alert_window_hours (CONFIG st);
          st1 = st\<lparr>simple_service_failures :=
                     (simple_service_failures st)(svc := [t \<leftarrow> appended. t \<ge> cutoff_time])\<rparr>;
          tr1 = (if int (length (simple_service_failures st1 svc))
                      \<ge> simple_alert_threshold (CONFIG st1)
                 then send_alert w svc st1 else [])
      in if influx_enabled (influxdb (CONFIG st1)) then
           (case save_to_influxdb w svc ''failure'' False st1 of (st2, tr2) \<Rightarrow> (st2, tr1 @ tr2))
         else (st1, tr1))"

text \<open>The body of the loop of \<^verbatim>\<open>scan_services\<close> of the simple version.\<close>

definition simple_scan_service ::
  "simple_probe \<Rightarrow> string \<Rightarrow> simple_state \<Rightarrow> simple_state \<times> effect list" where
  "simple_scan_service w svc st =
     (if check_service w then
        (if influx_enabled (influxdb (CONFIG st)) then
           (case save_to_influxdb w svc ''check'' True st of
              (st1, tr1) \<Rightarrow> (st1, Log DEBUG ''Service is running'' # tr1))
         else (st, [Log DEBUG ''Service is running'']))
      else
        (let restart_success = restart_service_result w
         in if restart_success then
              (if influx_enabled (influxdb (CONFIG st)) then
                 (case save_to_influxdb w svc ''restart'' True st of
                    (st1, tr1) \<Rightarrow>
                      (st1, [Log WARNING ''Service is down, attempting to restart'',
                             Log INFO ''Service restarted successfully''] @ tr1))
               else (st, [Log WARNING ''Service is down, attempting to restart'',
                          Log INFO ''Service restarted successfully'']))
            else
              (case simple_record_failure w svc st of
                 (st1, tr1) \<Rightarrow>
                   (st1, [Log WARNING ''Service is down, attempting to restart'',
                          Log ERROR ''Failed to restart service''] @ tr1))))"

fun simple_scan_loop ::
  "(nat \<Rightarrow> simple_probe) \<Rightarrow> nat \<Rightarrow> string list \<Rightarrow> simple_state \<Rightarrow> simple_state \<times> effect list" where
  "simple_scan_loop w i [] st = (st, [])"
| "simple_scan_loop w i (svc # svcs) st =
     (case simple_scan_service (w i) svc st of
        (st1, tr1) \<Rightarrow>
          (case simple_scan_loop w (Suc i) svcs st1 of (st2, tr2) \<Rightarrow> (st2, tr1 @ tr2)))"

definition simple_scan_services ::
  "(nat \<Rightarrow> simple_probe) \<Rightarrow> simple_state \<Rightarrow> simple_state \<times> effect list" where
  "simple_scan_services w st =
     (case simple_scan_loop w 0 (simple_services (CONFIG st)) st of
        (st1, tr) \<Rightarrow>
          (st1, Log INFO ''Starting service scan...'' # tr @ [Log INFO ''Service scan completed'']))"

section \<open>Specification vocabulary\<close>

text \<open>
  \<open>failuresSince\<close> is the answer of one repository as \<^verbatim>\<open>get_recent_failures\<close>
  sees it: the list the query returns, and the empty list when the query raises.
\<close>

definition failuresSince ::
  "'db DatabaseRepository \<Rightarrow> 'db \<Rightarrow> string \<Rightarrow> datetime \<Rightarrow> datetime list" where
  "failuresSince m db svc since =
     (case fst (db_get_failures m db svc since) of Inl ex \<Rightarrow> [] | Inr fs \<Rightarrow> fs)"

text \<open>The record that opens the effects of an alert, in both versions.\<close>

definition alert_triggered :: effect where
  "alert_triggered = Log WARNING ''Alert triggered for service''"

text \<open>The state in which a call of its \<^verbatim>\<open>save_event\<close> leaves a repository.\<close>

definition stored :: "'db DatabaseRepository \<Rightarrow> ServiceEvent \<Rightarrow> 'db \<Rightarrow> 'db" where
  "stored m e db = fst (snd (db_save_event m db e))"

text \<open>
  Inside \<^verbatim>\<open>ServiceDoctor.record_failure\<close>: \<open>appended\<close> is the object after the
  event was saved and \<open>now\<close> was appended to the in-memory window, and
  \<open>recent_failures\<close> is the value of the local variable \<^verbatim>\<open>recent_failures\<close>, the
  list whose length is compared with the threshold.
\<close>

definition appended ::
  "'db DatabaseRepository \<Rightarrow> datetime \<Rightarrow> string \<Rightarrow> 'db ServiceDoctor \<Rightarrow> 'db ServiceDoctor" where
  "appended m now svc sd =
     (case save_event m (new_ServiceEvent svc FAILURE False now) sd of
        (sd1, tr1) \<Rightarrow>
          sd1\<lparr>service_failures :=
                (service_failures sd1)(svc := service_failures sd1 svc @ [now])\<rparr>)"

definition recent_failures ::
  "'db DatabaseRepository \<Rightarrow> datetime \<Rightarrow> datetime \<Rightarrow> string \<Rightarrow> 'db ServiceDoctor
     \<Rightarrow> datetime list" where
  "recent_failures m now now' svc sd =
     fst (get_recent_failures m now' svc (appended m now svc sd))"

text \<open>
  The timestamps of the Failure events of a service that a repository of the source can
  return: none for InfluxDB, the failure set for Redis, the Failure documents for
  MongoDB.
\<close>

fun failure_times :: "repository \<Rightarrow> string \<Rightarrow> datetime list" where
  "failure_times (InfluxDBRepository db) svc = []"
| "failure_times (RedisRepository db) svc = redis_failures db svc"
| "failure_times (MongoDBRepository db) svc =
     map doc_timestamp
       [d \<leftarrow> mongo_collection db.
          doc_service_name d = svc \<and> doc_event_type d = EventType_value FAILURE]"

text \<open>
  The scan cycle as the specification describes it: per service exactly one of three
  paths, each with its events. \<open>path_events\<close> are the events of one service,
  \<open>scan_events\<close> those of a whole scan whose \<open>i\<close>-th iteration sees the world
  \<open>w i\<close>, and \<open>failures_follow_failed_restarts prev es\<close> tells that every Failure
  event of the sequence \<open>es\<close> stands right after a failed Restart event of the same
  service (\<open>prev\<close> is the event before the sequence, if any).
\<close>

definition path_events :: "probe \<Rightarrow> string \<Rightarrow> ServiceEvent list" where
  "path_events w svc =
     (if is_service_running w then [new_ServiceEvent svc CHECK True (now_event w)]
      else if restart_service w then [new_ServiceEvent svc RESTART True (now_event w)]
      else [new_ServiceEvent svc RESTART False (now_event w),
            new_ServiceEvent svc FAILURE False (now_failure w)])"

fun scan_events :: "(nat \<Rightarrow> probe) \<Rightarrow> nat \<Rightarrow> string list \<Rightarrow> ServiceEvent list" where
  "scan_events w i [] = []"
| "scan_events w i (svc # svcs) = path_events (w i) svc @ scan_events w (Suc i) svcs"

fun failures_follow_failed_restarts :: "ServiceEvent option \<Rightarrow> ServiceEvent list \<Rightarrow> bool" where
  "failures_follow_failed_restarts prev [] = True"
| "failures_follow_failed_restarts prev (e # es) =
     ((if event_type e = FAILURE
       then (case prev of
               None \<Rightarrow> False
             | Some p \<Rightarrow> event_type p = RESTART \<and> \<not> success p
                          \<and> service_name p = service_name e)
       else True)
      \<and> failures_follow_failed_restarts (Some e) es)"

text \<open>
  A sequence of calls of the simple version's \<^verbatim>\<open>record_failure\<close> for one service,
  the \<open>k\<close>-th call seeing the world \<open>ws ! k\<close>.
\<close>

fun simple_record_failures :: "simple_probe list \<Rightarrow> string \<Rightarrow> simple_state \<Rightarrow> simple_state" where
  "simple_record_failures [] svc st = st"
| "simple_record_failures (w # ws) svc st =
     simple_record_failures ws svc (fst (simple_record_failure w svc st))"

section \<open>Concrete inputs\<close>

text \<open>
  Inputs for the instances below: a network where every delivery succeeds, the
  configuration of the specification's scenarios (one service, a window of one hour, a
  threshold of three, a retention of one day), and probes that read the clock at \<open>t\<close>,
  \<open>t + 1\<close> and \<open>t + 2\<close> microseconds.
\<close>

definition minutes :: "int \<Rightarrow> timedelta" where
  "minutes n = n * 60000000"

definition ex_net :: network where
  "ex_net = \<lparr>smtp = None, http_post = (\<lambda>url. Inr 200)\<rparr>"

definition ex_config :: sd_config where
  "ex_config =
     \<lparr>services = Some [''svc1''], scan_interval_minutes = None,
      alert_window_hours = Some (hours 1), alert_threshold = Some 3,
      retention_hours = Some (hours 24)\<rparr>"

definition ex_doctor :: "repository ServiceDoctor" where
  "ex_doctor =
     \<lparr>config = ex_config, databases = [], notification_configs = [],
      service_failures = (\<lambda>svc. [])\<rparr>"

definition ex_probe :: "bool \<Rightarrow> bool \<Rightarrow> datetime \<Rightarrow> probe" where
  "ex_probe running restarted t =
     \<lparr>is_service_running = running, restart_service = restarted,
      now_event = t, now_failure = t + 1, now_query = t + 2, net = ex_net\<rparr>"

definition ex_simple_config :: simple_config where
  "ex_simple_config =
     \<lparr>simple_services = [''svc1''],
      simple_alert_window_hours = hours 1,
      simple_alert_threshold = 3,
      influxdb = \<lparr>influx_enabled = True, influx_url = PStr ''http://localhost:8086'',
                  influx_token = PStr ''token'', influx_org = PStr ''org'',
                  influx_bucket_name = PStr ''bucket''\<rparr>,
      email = \<lparr>email_enabled = False, email_password = PNone, email_sender = PNone,
               email_receiver = PNone, email_smtp_server = PNone, email_smtp_port = PNone\<rparr>,
      slack = \<lparr>webhook_enabled = False, webhook_url = PNone\<rparr>,
      teams = \<lparr>webhook_enabled = False, webhook_url = PNone\<rparr>\<rparr>"

definition ex_simple_state :: simple_state where
  "ex_simple_state =
     \<lparr>CONFIG = ex_simple_config, simple_service_failures = (\<lambda>svc. []), influx_written = []\<rparr>"

definition ex_simple_probe :: "bool \<Rightarrow> bool \<Rightarrow> datetime \<Rightarrow> simple_probe" where
  "ex_simple_probe running restarted t =
     \<lparr>check_service = running, restart_service_result = restarted, now_record = t,
      utcnow = t + 1, influx_write_ok = True, simple_net = ex_net\<rparr>"

text \<open>
  Three stores that hold, for \<open>svc1\<close>, a Failure event at instant 0 and one twenty
  hours later.
\<close>

definition ex_influx :: influx_store where
  "ex_influx =
     \<lparr>influx_available = True,
      influx_bucket = [event_point (new_ServiceEvent ''svc1'' FAILURE False 0),
                       event_point (new_ServiceEvent ''svc1'' FAILURE False (hours 20))]\<rparr>"

definition ex_redis :: redis_store where
  "ex_redis =
     \<lparr>redis_available = True,
      redis_events = (\<lambda>k. [])
        (''svc1'' := [event_doc (new_ServiceEvent ''svc1'' FAILURE False 0),
                      event_doc (new_ServiceEvent ''svc1'' FAILURE False (hours 20))]),
      redis_failures = (\<lambda>k. [])(''svc1'' := [0, hours 20])\<rparr>"

definition ex_mongo :: mongo_store where
  "ex_mongo =
     \<lparr>mongo_available = True,
      mongo_collection = [event_doc (new_ServiceEvent ''svc1'' FAILURE False 0),
                          event_doc (new_ServiceEvent ''svc1'' FAILURE False (hours 20))]\<rparr>"




text \<open>
  An implementation of the repository interface for the fan-out instance: a store is a
  counter of the events saved; the store \<open>0\<close> is broken and its \<^verbatim>\<open>save_event\<close>
  raises.
\<close>

definition ex_flaky_methods :: "nat DatabaseRepository" where
  "ex_flaky_methods =
     \<lparr>db_save_event =
        (\<lambda>db e. if db = 0 then (Inl (Exception ''connection refused''), db, [])
                 else (Inr True, Suc db, [])),
      db_get_failures = (\<lambda>db svc since. (Inr [], [])),
      db_cleanup_old_records = (\<lambda>db cutoff_time. (None, db, []))\<rparr>"

definition ex_flaky_doctor :: "nat ServiceDoctor" where
  "ex_flaky_doctor =
     \<lparr>config = ex_config\<lparr>services := Some [''svc1'', ''svc2'']\<rparr>,
      databases = [3, 0, 7], notification_configs = [],
      service_failures = (\<lambda>svc. [])\<rparr>"

section \<open>Properties\<close>

subsection \<open>Auxiliary facts\<close>

lemmas ex_defs = ex_doctor_def ex_config_def ex_probe_def ex_net_def ex_simple_state_def
  ex_simple_config_def ex_simple_probe_def hours_def minutes_def

lemmas ex_store_defs = ex_influx_def ex_redis_def ex_mongo_def event_doc_def event_point_def

lemmas solid_defs = scan_service_def record_failure_def save_event_def get_recent_failures_def
  new_ServiceEvent_def get_alert_window_def get_alert_threshold_def send_alerts_def Let_def

lemmas simple_defs = simple_scan_service_def simple_record_failure_def save_to_influxdb_def
  send_alert_def

lemma repository_methods_sel [simp]:
  "db_save_event repository_methods = repository_save_event"
  "db_get_failures repository_methods = repository_get_failures"
  "db_cleanup_old_records repository_methods = repository_cleanup_old_records"
  by (simp_all add: repository_methods_def)

lemma save_event_loop_map:
  "save_event_loop m e dbs =
     (map (\<lambda>db. fst (snd (db_save_event m db e))) dbs,
      concat (map (\<lambda>db. snd (snd (db_save_event m db e)) @
                     (case fst (db_save_event m db e) of
                        Inl ex \<Rightarrow> [Log ERROR ''Failed to save event to database'']
                      | Inr ok \<Rightarrow> [])) dbs))"
  by (induction dbs) (auto split: prod.splits sum.splits)

lemma query_databases_find:
  "fst (query_databases m svc c dbs) =
     map_option (\<lambda>db. failuresSince m db svc c)
       (List.find (\<lambda>db. failuresSince m db svc c \<noteq> []) dbs)"
proof (induction dbs)
  case Nil
  then show ?case by simp
next
  case (Cons a dbs)
  obtain r tr where a: "db_get_failures m a svc c = (r, tr)"
    by (cases "db_get_failures m a svc c")
  show ?case
  proof (cases r)
    case (Inl ex)
    with a have "failuresSince m a svc c = []" by (simp add: failuresSince_def)
    with a Inl Cons show ?thesis by (auto split: prod.splits)
  next
    case (Inr fs)
    with a have "failuresSince m a svc c = fs" by (simp add: failuresSince_def)
    with a Inr Cons show ?thesis by (auto split: prod.splits)
  qed
qed

lemma query_databases_skip_influx:
  "query_databases repository_methods svc c (xs @ InfluxDBRepository db # ys)
     = query_databases repository_methods svc c (xs @ ys)"
  by (induction xs) (simp_all add: influx_get_failures_def split: prod.splits sum.splits)

lemma get_recent_failures_find:
  "fst (get_recent_failures m now svc sd) =
     (case List.find (\<lambda>db. failuresSince m db svc (now - get_alert_window (config sd)) \<noteq> [])
            (databases sd) of
        Some db \<Rightarrow> failuresSince m db svc (now - get_alert_window (config sd))
      | None \<Rightarrow> [t \<leftarrow> service_failures sd svc. now - t \<le> get_alert_window (config sd)])"
proof -
  have eq: "(\<lambda>t. now - get_alert_window (config sd) \<le> t)
              = (\<lambda>t. now - t \<le> get_alert_window (config sd))"
    by (rule ext) arith
  show ?thesis
    using query_databases_find[of m svc "now - get_alert_window (config sd)" "databases sd"]
    by (auto simp add: get_recent_failures_def Let_def eq split: prod.splits option.splits)
qed

lemma save_event_databases:
  "databases (fst (save_event m e sd)) = map (stored m e) (databases sd)"
  by (simp add: save_event_def save_event_loop_map stored_def)

lemma get_recent_failures_databases:
  "databases (fst (snd (get_recent_failures m now svc sd))) = databases sd"
  by (simp add: get_recent_failures_def Let_def split: prod.splits option.splits)

lemma record_failure_databases:
  "databases (fst (record_failure m nw now now' svc sd))
     = map (stored m (new_ServiceEvent svc FAILURE False now)) (databases sd)"
proof -
  obtain sd1 tr1 where s: "save_event m (new_ServiceEvent svc FAILURE False now) sd = (sd1, tr1)"
    by (cases "save_event m (new_ServiceEvent svc FAILURE False now) sd")
  have d1: "databases sd1 = map (stored m (new_ServiceEvent svc FAILURE False now)) (databases sd)"
    using save_event_databases[of m "new_ServiceEvent svc FAILURE False now" sd] s by simp
  let ?sd2 = "sd1\<lparr>service_failures :=
                    (service_failures sd1)(svc := service_failures sd1 svc @ [now])\<rparr>"
  have "databases (fst (snd (get_recent_failures m now' svc ?sd2))) = databases sd1"
    using get_recent_failures_databases[of m now' svc ?sd2] by simp
  then show ?thesis using s d1
    by (auto simp add: record_failure_def Let_def split: prod.splits)
qed

lemma scan_service_databases:
  "databases (fst (scan_service m w svc sd)) =
     map (\<lambda>db. if is_service_running w then
                  stored m (new_ServiceEvent svc CHECK True (now_event w)) db
                else if restart_service w then
                  stored m (new_ServiceEvent svc RESTART True (now_event w)) db
                else
                  stored m (new_ServiceEvent svc FAILURE False (now_failure w))
                    (stored m (new_ServiceEvent svc RESTART False (now_event w)) db))
         (databases sd)"
proof -
  obtain sd1 tr1
    where s: "save_event m (new_ServiceEvent svc RESTART False (now_event w)) sd = (sd1, tr1)"
    by (cases "save_event m (new_ServiceEvent svc RESTART False (now_event w)) sd")
  have d1: "databases sd1
              = map (stored m (new_ServiceEvent svc RESTART False (now_event w))) (databases sd)"
    using save_event_databases[of m "new_ServiceEvent svc RESTART False (now_event w)" sd] s
    by simp
  show ?thesis
    using save_event_databases[of m "new_ServiceEvent svc CHECK True (now_event w)" sd]
          save_event_databases[of m "new_ServiceEvent svc RESTART True (now_event w)" sd]
          record_failure_databases[of m "net w" "now_failure w" "now_query w" svc sd1] s d1
    by (auto simp add: scan_service_def Let_def split: prod.splits)
qed

lemma failure_times_stored_other:
  "ty \<noteq> FAILURE \<Longrightarrow>
   failure_times (stored repository_methods (new_ServiceEvent svc ty ok t) db) svc'
     = failure_times db svc'"
  by (cases db; cases ty)
     (simp_all add: stored_def influx_save_event_def redis_save_event_def mongo_save_event_def
        event_doc_def new_ServiceEvent_def)

subsection \<open>Fallback ordering of the failure query\<close>

text \<open>
  C3. The list that \<^verbatim>\<open>get_recent_failures\<close> returns, and that
  \<^verbatim>\<open>record_failure\<close> compares with the threshold, is the answer of the first
  repository, in the order of \<^verbatim>\<open>self.databases\<close>, whose answer is not empty (a
  query that raises counts as empty). When every answer is empty, it is the in-memory
  window of the service, pruned to the timestamps \<open>t\<close> with
  \<open>now - t \<le> alert window\<close>.
\<close>

theorem get_recent_failures_first_nonempty:
  "fst (get_recent_failures m now svc sd) =
     (case List.find (\<lambda>db. failuresSince m db svc (now - get_alert_window (config sd)) \<noteq> [])
            (databases sd) of
        Some db \<Rightarrow> failuresSince m db svc (now - get_alert_window (config sd))
      | None \<Rightarrow> [t \<leftarrow> service_failures sd svc. now - t \<le> get_alert_window (config sd)])"
  by (rule get_recent_failures_find)

text \<open>
  The ordering scenario of the specification: the first repository (InfluxDB) answers
  with the empty list, the second (MongoDB) with two timestamps; the result is the
  second repository's list, not the in-memory window.
\<close>

theorem get_recent_failures_first_nonempty_witness:
  "fst (get_recent_failures repository_methods (hours 20) ''svc1''
          (ex_doctor\<lparr>databases := [InfluxDBRepository ex_influx, MongoDBRepository ex_mongo],
                      service_failures := (\<lambda>k. [hours 19, hours 20])\<rparr>))
     = [hours 20]
   \<and> fst (get_recent_failures repository_methods (hours 20) ''svc1''
          (ex_doctor\<lparr>databases := [InfluxDBRepository ex_influx, MongoDBRepository ex_mongo],
                      config := ex_config\<lparr>alert_window_hours := Some (hours 24)\<rparr>,
                      service_failures := (\<lambda>k. [hours 19])\<rparr>))
     = [0, hours 20]"
  using get_recent_failures_first_nonempty
          [of repository_methods "hours 20" "''svc1''"
              "ex_doctor\<lparr>databases := [InfluxDBRepository ex_influx, MongoDBRepository ex_mongo],
                         service_failures := (\<lambda>k. [hours 19, hours 20])\<rparr>"]
  by (simp add: get_recent_failures_def get_alert_window_def influx_get_failures_def
        mongo_get_failures_def ex_defs ex_store_defs new_ServiceEvent_def Let_def)

subsection \<open>Fan-out of a save\<close>

text \<open>
  C5. \<^verbatim>\<open>ServiceDoctor.save_event\<close> calls \<^verbatim>\<open>save_event\<close> on every repository of
  \<^verbatim>\<open>self.databases\<close>, whatever the other calls did: each repository ends in the
  state its own call leaves, whether the call returned \<^verbatim>\<open>True\<close>, returned
  \<^verbatim>\<open>False\<close> or raised. A raised exception appears only as one error record in the
  log, after the effects of the call that raised; the method itself returns.
\<close>

theorem save_event_fans_out:
  "save_event m e sd =
     (sd\<lparr>databases := map (\<lambda>db. fst (snd (db_save_event m db e))) (databases sd)\<rparr>,
      concat (map (\<lambda>db. snd (snd (db_save_event m db e)) @
                     (case fst (db_save_event m db e) of
                        Inl ex \<Rightarrow> [Log ERROR ''Failed to save event to database'']
                      | Inr ok \<Rightarrow> [])) (databases sd)))"
  by (simp add: save_event_def save_event_loop_map)

text \<open>
  An instance with three repositories of which the second raises on every save: the
  first and the third still receive the event, and the exception leaves one error record.
  A scan over two running services then goes through both of them: each working
  repository receives two Check events.
\<close>

theorem save_event_fans_out_witness:
  "save_event ex_flaky_methods (new_ServiceEvent ''svc1'' FAILURE False 0) ex_flaky_doctor
     = (ex_flaky_doctor\<lparr>databases := [4, 0, 8]\<rparr>,
        [Log ERROR ''Failed to save event to database''])
   \<and> databases (fst (scan_services ex_flaky_methods (\<lambda>i. ex_probe True False 0)
                       ex_flaky_doctor))
       = [5, 0, 9]"
  using save_event_fans_out
          [of ex_flaky_methods "new_ServiceEvent ''svc1'' FAILURE False 0" ex_flaky_doctor]
  by (simp add: ex_flaky_methods_def ex_flaky_doctor_def scan_services_def scan_service_def
        save_event_def get_services_def ex_config_def ex_probe_def)

subsection \<open>The InfluxDB stub\<close>

text \<open>
  C9. \<^verbatim>\<open>InfluxDBRepository.get_failures\<close> returns the empty list for every service
  and every instant. So an InfluxDB repository, wherever it stands in
  \<^verbatim>\<open>self.databases\<close>, never supplies the list of \<^verbatim>\<open>get_recent_failures\<close>: the
  query gives the same list, the same in-memory window and the same effects as without
  that repository.
\<close>

theorem influx_get_failures_is_stub:
  "influx_get_failures db svc since = ([], [])
   \<and> failuresSince repository_methods (InfluxDBRepository db) svc since = []
   \<and> get_recent_failures repository_methods now svc
        (sd\<lparr>databases := xs @ InfluxDBRepository db # ys\<rparr>)
       = (case get_recent_failures repository_methods now svc (sd\<lparr>databases := xs @ ys\<rparr>) of
            (fs, sd', tr) \<Rightarrow> (fs, sd'\<lparr>databases := xs @ InfluxDBRepository db # ys\<rparr>, tr))"
  by (simp add: influx_get_failures_def failuresSince_def query_databases_skip_influx
        get_recent_failures_def Let_def split: prod.splits option.splits)

subsection \<open>Running without services\<close>

text \<open>
  C10. When the configured list of services is empty (or absent),
  \<^verbatim>\<open>ServiceDoctor.run\<close> returns \<^verbatim>\<open>None\<close> at once: its only effects are the start
  record and the warning, the object is unchanged (no scan ran), no job is registered with
  the scheduler, and the outcome does not depend on what the monitoring loop would have
  met.
\<close>

theorem run_without_services_returns:
  "get_services (config sd) = [] \<Longrightarrow>
   run m w0 ticks jobs sd =
     (Returned None, sd, jobs,
      [Log INFO ''Linux Service Doctor starting...'',
       Log WARNING ''No services configured for monitoring.''])"
  by (simp add: run_def)

theorem run_without_services_returns_witness:
  "get_services (config (ex_doctor\<lparr>config := ex_config\<lparr>services := Some []\<rparr>\<rparr>)) = []
   \<and> run repository_methods (\<lambda>i. ex_probe False False 0) [KeyboardInterrupt] []
        (ex_doctor\<lparr>config := ex_config\<lparr>services := Some []\<rparr>\<rparr>)
      = (Returned None, ex_doctor\<lparr>config := ex_config\<lparr>services := Some []\<rparr>\<rparr>, [],
         [Log INFO ''Linux Service Doctor starting...'',
          Log WARNING ''No services configured for monitoring.''])"
  using run_without_services_returns
          [of "ex_doctor\<lparr>config := ex_config\<lparr>services := Some []\<rparr>\<rparr>"
              repository_methods "\<lambda>i. ex_probe False False 0" "[KeyboardInterrupt]" "[]"]
  by (simp add: get_services_def ex_doctor_def ex_config_def)

text \<open>
  For contrast, with one configured service that is running, the same call scans once,
  registers the two jobs and enters the loop, which the interrupt ends with \<open>0\<close>.
\<close>

lemma run_with_one_service:
  "run repository_methods (\<lambda>i. ex_probe True False 0) [KeyboardInterrupt] [] ex_doctor
      = (Returned (Some 0), ex_doctor, [ScanServicesJob 5, CleanupOldDataJob],
         [Log INFO ''Linux Service Doctor starting...'',
          Log INFO ''Monitoring services'', Log INFO ''Scan interval'',
          Log INFO ''Starting service scan...'', Log DEBUG ''Service is running'',
          Log INFO ''Service scan completed'', Log INFO ''Service monitoring is active'',
          Log INFO ''Service monitoring stopped by user''])"
  by (simp add: run_def get_services_def ex_doctor_def ex_config_def scan_services_def
        scan_service_def save_event_def ex_probe_def get_scan_interval_minutes_def Let_def)

subsection \<open>Guard clauses of the notification channels\<close>



text \<open>
  With the credential present the same sender does reach the network: the guard is what
  keeps it away.
\<close>

lemma slack_with_url_posts:
  "slack_send_notification ex_net ''svc1'' [0] [''webhook_url'' \<mapsto> PStr ''https://hook'']
     = (True, [HttpPost (PStr ''https://hook'') (SlackMessage ''svc1'' [0]),
               Log INFO ''Slack alert sent for service''])"
  by (simp add: slack_send_notification_def dict_get_def dict_item_def ex_net_def)

subsection \<open>A successful restart leaves the failure window alone\<close>

lemma save_event_service_failures:
  "service_failures (fst (save_event m e sd)) = service_failures sd"
  by (simp add: save_event_def split: prod.splits)

lemma save_to_influxdb_failures:
  "simple_service_failures (fst (save_to_influxdb w svc etype ok st))
     = simple_service_failures st"
  by (simp add: save_to_influxdb_def Let_def)

text \<open>
  C6. In both versions, the iteration of the scan that finds the service down and
  restarts it with success leaves the failure window of every service as it was: the
  map \<^verbatim>\<open>service_failures\<close> after the iteration is the map before it. In the
  solid version the Restart event that the iteration saves changes, in no repository of
  the source, the failure timestamps the repository can return for any service.
\<close>

theorem successful_restart_keeps_failure_window:
  "(\<not> is_service_running w \<and> restart_service w \<longrightarrow>
      service_failures (fst (scan_service m w svc sd)) = service_failures sd)
   \<and> (\<not> is_service_running w \<and> restart_service w \<longrightarrow>
      map (\<lambda>db. failure_times db svc')
          (databases (fst (scan_service repository_methods w svc rsd)))
        = map (\<lambda>db. failure_times db svc') (databases rsd))
   \<and> (\<not> check_service w' \<and> restart_service_result w' \<longrightarrow>
      simple_service_failures (fst (simple_scan_service w' svc st))
        = simple_service_failures st)"
proof -
  have mem: "service_failures (fst (scan_service m w svc sd)) = service_failures sd"
    if "\<not> is_service_running w \<and> restart_service w"
    using that
          save_event_service_failures[of m "new_ServiceEvent svc RESTART True (now_event w)" sd]
    by (auto simp add: scan_service_def Let_def split: prod.splits)
  have dbs: "map (\<lambda>db. failure_times db svc')
                 (databases (fst (scan_service repository_methods w svc rsd)))
               = map (\<lambda>db. failure_times db svc') (databases rsd)"
    if "\<not> is_service_running w \<and> restart_service w"
    using that by (simp add: scan_service_databases failure_times_stored_other o_def)
  have simple: "simple_service_failures (fst (simple_scan_service w' svc st))
                  = simple_service_failures st"
    if "\<not> check_service w' \<and> restart_service_result w'"
    using that save_to_influxdb_failures[of w' svc "''restart''" True st]
    by (auto simp add: simple_scan_service_def Let_def split: prod.splits)
  from mem dbs simple show ?thesis by blast
qed

text \<open>
  The scenario of the specification, in both versions: a failed restart at minute 0, a
  successful restart at minute 5 and a failed restart at minute 10, with a window of one
  hour. The successful restart changes no window, and after the third scan the window of
  the service holds both failures.
\<close>

theorem successful_restart_keeps_failure_window_witness:
  "\<not> is_service_running (ex_probe False True (minutes 5))
   \<and> restart_service (ex_probe False True (minutes 5))
   \<and> service_failures
        (fst (scan_service repository_methods (ex_probe False True (minutes 5)) ''svc1''
          (fst (scan_service repository_methods (ex_probe False False 0) ''svc1'' ex_doctor))))
      = service_failures
          (fst (scan_service repository_methods (ex_probe False False 0) ''svc1'' ex_doctor))
   \<and> service_failures
        (fst (scan_service repository_methods (ex_probe False False (minutes 10)) ''svc1''
          (fst (scan_service repository_methods (ex_probe False True (minutes 5)) ''svc1''
            (fst (scan_service repository_methods (ex_probe False False 0) ''svc1''
                    ex_doctor))))))
        ''svc1''
      = [1, minutes 10 + 1]
   \<and> \<not> check_service (ex_simple_probe False True (minutes 5))
   \<and> restart_service_result (ex_simple_probe False True (minutes 5))
   \<and> simple_service_failures
        (fst (simple_scan_service (ex_simple_probe False True (minutes 5)) ''svc1''
          (fst (simple_scan_service (ex_simple_probe False False 0) ''svc1'' ex_simple_state))))
      = simple_service_failures
          (fst (simple_scan_service (ex_simple_probe False False 0) ''svc1'' ex_simple_state))
   \<and> simple_service_failures
        (fst (simple_scan_service (ex_simple_probe False False (minutes 10)) ''svc1''
          (fst (simple_scan_service (ex_simple_probe False True (minutes 5)) ''svc1''
            (fst (simple_scan_service (ex_simple_probe False False 0) ''svc1''
                    ex_simple_state))))))
        ''svc1''
      = [0, minutes 10]"
  using successful_restart_keeps_failure_window
    [where w = "ex_probe False True (minutes 5)" and m = repository_methods
       and svc = "''svc1''" and svc' = "''svc1''"
       and sd = "fst (scan_service repository_methods (ex_probe False False 0) ''svc1''
                        ex_doctor)"
       and rsd = "fst (scan_service repository_methods (ex_probe False False 0) ''svc1''
                         ex_doctor)"
       and w' = "ex_simple_probe False True (minutes 5)"
       and st = "fst (simple_scan_service (ex_simple_probe False False 0) ''svc1''
                        ex_simple_state)"]
  by (simp add: ex_defs solid_defs simple_defs)

subsection \<open>The events one iteration of the scan records\<close>

lemma simple_scan_service_written:
  "influx_written (fst (simple_scan_service w svc st)) =
     influx_written st @
       (if influx_enabled (influxdb (CONFIG st))
           \<and> truthy (influx_url (influxdb (CONFIG st)))
           \<and> truthy (influx_token (influxdb (CONFIG st)))
           \<and> truthy (influx_org (influxdb (CONFIG st)))
           \<and> truthy (influx_bucket_name (influxdb (CONFIG st)))
           \<and> influx_write_ok w
        then [\<lparr>point_service = svc,
               point_event_type = (if check_service w then ''check''
                                   else if restart_service_result w then ''restart''
                                   else ''failure''),
               point_success = (check_service w \<or> restart_service_result w),
               point_value = 1,
               point_time = utcnow w\<rparr>]
        else [])"
  by (simp add: simple_scan_service_def simple_record_failure_def save_to_influxdb_def Let_def)

lemma scan_service_databases_fold:
  "databases (fst (scan_service m w svc sd))
     = map (\<lambda>db. foldl (\<lambda>d e. stored m e d) db (path_events w svc)) (databases sd)"
  by (simp add: scan_service_databases path_events_def)

lemma scan_loop_databases:
  "databases (fst (scan_loop m w i svcs sd))
     = map (\<lambda>db. foldl (\<lambda>d e. stored m e d) db (scan_events w i svcs)) (databases sd)"
proof (induction svcs arbitrary: i sd)
  case Nil
  then show ?case by simp
next
  case (Cons svc svcs)
  obtain sd1 tr1 where s: "scan_service m (w i) svc sd = (sd1, tr1)"
    by (cases "scan_service m (w i) svc sd")
  have d1: "databases sd1
              = map (\<lambda>db. foldl (\<lambda>d e. stored m e d) db (path_events (w i) svc)) (databases sd)"
    using scan_service_databases_fold[of m "w i" svc sd] s by simp
  show ?case
    using Cons.IH[of "Suc i" sd1] s d1
    by (simp add: case_prod_beta)
qed

lemma scan_services_databases:
  "databases (fst (scan_services m w sd))
     = map (\<lambda>db. foldl (\<lambda>d e. stored m e d) db (scan_events w 0 (get_services (config sd))))
         (databases sd)"
  by (simp add: scan_services_def case_prod_beta scan_loop_databases)

lemma failures_follow_append:
  "failures_follow_failed_restarts prev (xs @ ys)
     = (failures_follow_failed_restarts prev xs
        \<and> failures_follow_failed_restarts (if xs = [] then prev else Some (last xs)) ys)"
  by (induction xs arbitrary: prev) auto

lemma path_events_follow:
  "failures_follow_failed_restarts prev (path_events w svc)"
  by (simp add: path_events_def new_ServiceEvent_def)

lemma path_events_nonempty:
  "path_events w svc \<noteq> []"
  by (simp add: path_events_def)

lemma scan_events_follow:
  "failures_follow_failed_restarts prev (scan_events w i svcs)"
proof (induction svcs arbitrary: i prev)
  case Nil
  then show ?case by simp
next
  case (Cons svc svcs)
  then show ?case
    by (simp add: failures_follow_append path_events_follow path_events_nonempty)
qed

text \<open>
  C2, as the claim states it, fails on the simple version: there the iteration that finds
  the service down and fails to restart it writes one point, of type \<open>failure\<close>, and
  no point for the failed restart.
\<close>

theorem simple_scan_failure_without_restart_record:
  "\<not> check_service (ex_simple_probe False False 0)
   \<and> \<not> restart_service_result (ex_simple_probe False False 0)
   \<and> influx_written
        (fst (simple_scan_service (ex_simple_probe False False 0) ''svc1'' ex_simple_state))
       = [\<lparr>point_service = ''svc1'', point_event_type = ''failure'', point_success = False,
            point_value = 1, point_time = 1\<rparr>]"
  by (simp add: simple_defs ex_defs)

text \<open>
  C2, amended. In the solid version one iteration of the scan hands to every repository
  exactly these events, in this order: a successful Check when the service runs; a
  successful Restart when it is down and the restart succeeds; a failed Restart followed
  by a Failure when it is down and the restart fails. A whole scan hands to every
  repository the events of its iterations in order, and in that sequence every Failure
  event stands right after a failed Restart event of the same service. In the simple
  version one iteration writes at most one point: \<open>check\<close>, \<open>restart\<close> (only for
  a successful restart) or \<open>failure\<close>; a failed restart is recorded by the
  \<open>failure\<close> point alone.
\<close>

theorem scan_service_recorded_events:
  "databases (fst (scan_service m w svc sd)) =
     map (\<lambda>db. if is_service_running w then
                  stored m (new_ServiceEvent svc CHECK True (now_event w)) db
                else if restart_service w then
                  stored m (new_ServiceEvent svc RESTART True (now_event w)) db
                else
                  stored m (new_ServiceEvent svc FAILURE False (now_failure w))
                    (stored m (new_ServiceEvent svc RESTART False (now_event w)) db))
         (databases sd)
   \<and> databases (fst (scan_services m ws sd)) =
     map (\<lambda>db. foldl (\<lambda>d e. stored m e d) db (scan_events ws 0 (get_services (config sd))))
         (databases sd)
   \<and> failures_follow_failed_restarts None (scan_events ws 0 (get_services (config sd)))
   \<and> influx_written (fst (simple_scan_service w' svc st)) =
     influx_written st @
       (if influx_enabled (influxdb (CONFIG st))
           \<and> truthy (influx_url (influxdb (CONFIG st)))
           \<and> truthy (influx_token (influxdb (CONFIG st)))
           \<and> truthy (influx_org (influxdb (CONFIG st)))
           \<and> truthy (influx_bucket_name (influxdb (CONFIG st)))
           \<and> influx_write_ok w'
        then [\<lparr>point_service = svc,
               point_event_type = (if check_service w' then ''check''
                                   else if restart_service_result w' then ''restart''
                                   else ''failure''),
               point_success = (check_service w' \<or> restart_service_result w'),
               point_value = 1,
               point_time = utcnow w'\<rparr>]
        else [])"
  using scan_service_databases[of m w svc sd] simple_scan_service_written[of w' svc st]
        scan_services_databases[of m ws sd]
        scan_events_follow[of None ws 0 "get_services (config sd)"]
  by simp

text \<open>
  An instance on a MongoDB repository: after the iteration that fails to restart
  \<open>svc1\<close>, the collection holds the failed Restart document and then the Failure
  document.
\<close>

lemma scan_service_mongo_documents:
  "databases (fst (scan_service repository_methods (ex_probe False False 0) ''svc1''
       (ex_doctor\<lparr>databases :=
           [MongoDBRepository \<lparr>mongo_available = True, mongo_collection = []\<rparr>]\<rparr>)))
     = [MongoDBRepository
          \<lparr>mongo_available = True,
           mongo_collection =
             [\<lparr>doc_service_name = ''svc1'', doc_event_type = ''restart'', doc_success = False,
               doc_timestamp = 0, doc_message = []\<rparr>,
              \<lparr>doc_service_name = ''svc1'', doc_event_type = ''failure'', doc_success = False,
               doc_timestamp = 1, doc_message = []\<rparr>]\<rparr>]"
  by (simp add: scan_service_databases stored_def ex_defs new_ServiceEvent_def
        mongo_save_event_def event_doc_def)

subsection \<open>Retention cleanup\<close>










text \<open>
  At the cutoff itself the two stores differ. MongoDB's \<^verbatim>\<open>$lt\<close> keeps a document
  whose timestamp is the cutoff; Redis's \<^verbatim>\<open>zremrangebyscore(key, "-inf", cutoff)\<close>
  has an inclusive upper end and removes such an entry, although
  \<^verbatim>\<open>get_failures\<close> with \<open>since = cutoff\<close> returned it before the cleanup.
\<close>

lemma cleanup_at_the_cutoff:
  "fst (mongo_get_failures
         (fst (mongo_cleanup_old_records
                 \<lparr>mongo_available = True,
                  mongo_collection = [event_doc (new_ServiceEvent ''svc1'' FAILURE False (hours 6))]\<rparr>
                 (hours 6))) ''svc1'' (hours 6)) = [hours 6]
   \<and> fst (redis_get_failures
         \<lparr>redis_available = True, redis_events = (\<lambda>k. []),
          redis_failures = (\<lambda>k. [])(''svc1'' := [hours 6])\<rparr> ''svc1'' (hours 6)) = [hours 6]
   \<and> fst (redis_get_failures
         (fst (redis_cleanup_old_records
                 \<lparr>redis_available = True, redis_events = (\<lambda>k. []),
                  redis_failures = (\<lambda>k. [])(''svc1'' := [hours 6])\<rparr> (hours 6)))
         ''svc1'' (hours 6)) = []"
  by (simp add: redis_get_failures_def redis_cleanup_old_records_def mongo_get_failures_def
        mongo_cleanup_old_records_def new_ServiceEvent_def event_doc_def)

subsection \<open>The failure window and the alert decision\<close>

lemma alert_triggered_neq [simp]:
  "alert_triggered \<noteq> Log ERROR s" "alert_triggered \<noteq> Log DEBUG s"
  "alert_triggered \<noteq> Log INFO s"
  "Log ERROR s \<noteq> alert_triggered" "Log DEBUG s \<noteq> alert_triggered"
  "Log INFO s \<noteq> alert_triggered"
  by (simp_all add: alert_triggered_def)

text \<open>The simple version.\<close>

lemma simple_record_failure_window:
  "simple_service_failures (fst (simple_record_failure w svc st)) svc
     = [t \<leftarrow> simple_service_failures st svc @ [now_record w].
          now_record w - t \<le> simple_alert_window_hours (CONFIG st)]"
proof -
  have eq: "(\<lambda>t. now_record w - simple_alert_window_hours (CONFIG st) \<le> t)
              = (\<lambda>t. now_record w - t \<le> simple_alert_window_hours (CONFIG st))"
    by (rule ext) arith
  show ?thesis
    by (simp add: simple_record_failure_def save_to_influxdb_failures Let_def eq
          case_prod_beta del: filter_append)
qed





















text \<open>
  Over a sequence of calls for one service, starting from an empty window and with a
  clock that does not go back, the window of the simple version holds exactly the
  recorded timestamps that are within the window duration of the last one.
\<close>

lemma simple_record_failures_snoc:
  "simple_record_failures (ws @ [w]) svc st
     = fst (simple_record_failure w svc (simple_record_failures ws svc st))"
  by (induction ws arbitrary: st) simp_all

lemma simple_record_failure_CONFIG:
  "CONFIG (fst (simple_record_failure w svc st)) = CONFIG st"
  by (simp add: simple_record_failure_def save_to_influxdb_def Let_def case_prod_beta
        del: filter_append)

lemma simple_record_failures_CONFIG:
  "CONFIG (simple_record_failures ws svc st) = CONFIG st"
  by (induction ws arbitrary: st) (simp_all add: simple_record_failure_CONFIG)

lemma simple_window_after_calls:
  assumes "0 \<le> simple_alert_window_hours (CONFIG st)"
    and "sorted (map now_record ws)"
    and "simple_service_failures st svc = []"
    and "ws \<noteq> []"
  shows "simple_service_failures (simple_record_failures ws svc st) svc
           = [t \<leftarrow> map now_record ws.
                now_record (last ws) - t \<le> simple_alert_window_hours (CONFIG st)]"
  using assms(2,4)
proof (induction ws rule: rev_induct)
  case Nil
  then show ?case by simp
next
  case (snoc w ws)
  let ?W = "simple_alert_window_hours (CONFIG st)"
  show ?case
  proof (cases "ws = []")
    case True
    with assms(1,3) show ?thesis
      by (simp add: simple_record_failure_window)
  next
    case False
    from snoc.prems have srt: "sorted (map now_record ws)"
      and le: "now_record (last ws) \<le> now_record w"
      using False by (auto simp add: sorted_append)
    from snoc.IH[OF srt False]
    have IH: "simple_service_failures (simple_record_failures ws svc st) svc
                = [t \<leftarrow> map now_record ws. now_record (last ws) - t \<le> ?W]" .
    have "[t \<leftarrow> [t \<leftarrow> map now_record ws. now_record (last ws) - t \<le> ?W].
             now_record w - t \<le> ?W]
            = [t \<leftarrow> map now_record ws. now_record w - t \<le> ?W]"
      using le by (auto simp add: filter_filter intro!: filter_cong)
    then show ?thesis
      using assms(1) IH
      by (simp add: simple_record_failures_snoc simple_record_failure_window
            simple_record_failures_CONFIG)
  qed
qed


lemmas eval_defs = recent_failures_def appended_def solid_defs simple_defs ex_defs ex_store_defs
  mongo_save_event_def mongo_get_failures_def redis_save_event_def redis_get_failures_def
  influx_save_event_def influx_get_failures_def zadd_def alert_triggered_def




text \<open>
  The pruning instant of the solid version is the later clock reading: without any
  repository, a monitor that holds a failure exactly one hour before \<open>now\<close> drops it
  when the query reads the clock one microsecond after \<open>now\<close>.
\<close>

lemma recent_failures_pruned_at_query_time:
  "hours 1 - 0 \<le> get_alert_window (config ex_doctor)
   \<and> recent_failures repository_methods (hours 1) (hours 1 + 1) ''svc1''
        (ex_doctor\<lparr>service_failures := (\<lambda>k. [0])\<rparr>) = [hours 1]"
  by (simp add: eval_defs)

subsection \<open>A window of zero\<close>




end
